theory Spec2Isabelle
  imports Complex_Main
begin

section \<open>The store\<close>

text \<open>
  BudgetMate keeps its state in a relational store reached through Prisma. The tables the
  ledger and the CSV import touch are modelled as one record: \<open>accounts\<close> and
  \<open>import_jobs\<close> are keyed by their primary key, \<open>transactions\<close>, \<open>import_rows\<close> and
  \<open>notifications\<close> are lists of rows in insertion order. Identifiers are UUID strings.
  Monetary amounts (Prisma \<open>Decimal\<close>, passed through \<open>Number\<close>) are exact rationals: the
  model does not round. The columns \<open>category_id\<close>, \<open>tx_date\<close> and \<open>mode\<close> of a
  transaction and the timestamps of a job are left out: no balance and no import outcome
  depends on their stored value.
\<close>

type_synonym uuid = string

text \<open>Every failure of a handler ends in one of three HTTP responses.\<close>

datatype failure = Http400 string | Http404 string | Http500 string

record accounts_row =
  acc_user_id :: uuid
  balance :: rat

record transactions_row =
  tx_id :: uuid
  tx_user_id :: uuid
  tx_account_id :: "uuid option"
  tx_amount :: rat
  tx_type :: string
  tx_description :: "string option"
  tx_reference :: "string option"
  tx_notes :: "string option"

text \<open>A parsed CSV row: the object csv-parser produces, column name to cell text.\<close>

type_synonym csv_row = "(string \<times> string) list"

text \<open>\<open>columnMappingSchema\<close>: three mandatory and four optional column names.\<close>

record column_mapping =
  m_date :: string
  m_amount :: string
  m_description :: string
  m_type :: "string option"
  m_category :: "string option"
  m_account :: "string option"
  m_reference :: "string option"

datatype job_status = Pending | Configured | Processing | Completed | Failed

datatype row_status = Duplicate | RowFailed | Processed

record import_jobs_row =
  job_user_id :: uuid
  filename :: string
  total_rows :: nat
  status :: job_status
  preview_data :: "csv_row list option"
  mapping_data :: "column_mapping option"
  processed_rows :: nat
  successful_rows :: nat
  failed_rows :: nat
  error_log :: "string option"

record import_rows_row =
  import_job_id :: uuid
  row_number :: nat
  idempotency_key :: string
  raw_data :: csv_row
  row_status :: row_status
  error_message :: "string option"
  transaction_id :: "uuid option"

record notifications_row =
  n_user_id :: uuid
  n_type :: string
  n_jobId :: uuid
  n_successCount :: nat
  n_failureCount :: nat

record store =
  accounts :: "uuid \<rightharpoonup> accounts_row"
  transactions :: "transactions_row list"
  import_jobs :: "uuid \<rightharpoonup> import_jobs_row"
  import_rows :: "import_rows_row list"
  notifications :: "notifications_row list"

section \<open>Transaction controller\<close>

text \<open>
  Request bodies. \<open>createTransactionSchema\<close> requires \<open>amount\<close> and \<open>type\<close>;
  \<open>updateTransactionSchema\<close> makes every field optional, so an update body may leave any
  of them \<open>undefined\<close> (\<open>None\<close>). \<open>account_id\<close> may also be \<open>null\<close>: in an update body
  \<open>None\<close> is undefined, \<open>Some None\<close> is null.
\<close>

record create_body =
  cb_account_id :: "uuid option"
  cb_amount :: rat
  cb_type :: string
  cb_description :: "string option"
  cb_reference :: "string option"
  cb_notes :: "string option"

record update_body =
  ub_account_id :: "uuid option option"
  ub_amount :: "rat option"
  ub_type :: "string option"
  ub_description :: "string option"
  ub_reference :: "string option"
  ub_notes :: "string option"

definition createTransactionSchema :: "create_body \<Rightarrow> bool" where
  "createTransactionSchema b \<longleftrightarrow>
     0 < cb_amount b \<and> (cb_type b = ''income'' \<or> cb_type b = ''expense'')"

definition updateTransactionSchema :: "update_body \<Rightarrow> bool" where
  "updateTransactionSchema b \<longleftrightarrow>
     (case ub_amount b of None \<Rightarrow> True | Some m \<Rightarrow> 0 < m) \<and>
     (case ub_type b of None \<Rightarrow> True | Some t \<Rightarrow> t = ''income'' \<or> t = ''expense'')"

text \<open>
  \<open>tx.accounts.update({ where: { id }, data: { balance: { increment } } })\<close>: Prisma throws
  when no row has the id.
\<close>

definition prisma_accounts_increment :: "uuid \<Rightarrow> rat \<Rightarrow> store \<Rightarrow> failure + store" where
  "prisma_accounts_increment a d s =
     (case accounts s a of
        None \<Rightarrow> Inl (Http500 ''Record to update not found'')
      | Some acc \<Rightarrow> Inr (s\<lparr>accounts := (accounts s)(a \<mapsto> acc\<lparr>balance := balance acc + d\<rparr>)\<rparr>))"

text \<open>
  \<open>transactions.create\<close>: the primary key is unique, and \<open>account_id\<close> is a foreign key
  into \<open>accounts\<close> (the relation \<open>account\<close>, \<open>onDelete: SetNull\<close>), so the insert throws
  for an account that does not exist.
\<close>

definition prisma_transactions_create :: "transactions_row \<Rightarrow> store \<Rightarrow> failure + store" where
  "prisma_transactions_create t s =
     (if tx_id t \<in> tx_id ` set (transactions s)
      then Inl (Http500 ''Unique constraint failed'')
      else case tx_account_id t of
        None \<Rightarrow> Inr (s\<lparr>transactions := transactions s @ [t]\<rparr>)
      | Some a \<Rightarrow>
          if accounts s a = None then Inl (Http500 ''Foreign key constraint failed'')
          else Inr (s\<lparr>transactions := transactions s @ [t]\<rparr>))"

text \<open>Sequencing inside \<open>prisma.$transaction\<close>: the first throw aborts the unit.\<close>

definition and_then :: "failure + store \<Rightarrow> (store \<Rightarrow> failure + store) \<Rightarrow> failure + store" where
  "and_then r f = (case r of Inl e \<Rightarrow> Inl e | Inr s \<Rightarrow> f s)"

text \<open>
  \<open>createTransaction\<close>. \<open>new_id\<close> is the UUID the store generates for the row. The row is
  inserted first; then, for a truthy \<open>account_id\<close>, the account is looked up by id alone
  and its balance incremented by \<open>+amount\<close> for \<open>income\<close>, \<open>-amount\<close> otherwise.
\<close>

definition createTransaction :: "store \<Rightarrow> uuid \<Rightarrow> uuid \<Rightarrow> create_body \<Rightarrow> failure + store" where
  "createTransaction s userId new_id b =
     and_then
       (prisma_transactions_create
          \<lparr>tx_id = new_id, tx_user_id = userId, tx_account_id = cb_account_id b,
           tx_amount = cb_amount b, tx_type = cb_type b, tx_description = cb_description b,
           tx_reference = cb_reference b, tx_notes = cb_notes b\<rparr> s)
       (\<lambda>s1.
          case cb_account_id b of
            None \<Rightarrow> Inr s1
          | Some a \<Rightarrow>
              if a = [] then Inr s1
              else if accounts s1 a = None then Inr s1
              else prisma_accounts_increment a
                     (if cb_type b = ''income'' then cb_amount b else - cb_amount b) s1)"

text \<open>
  \<open>tx.transactions.update({ where: { id }, data })\<close>: a field that is \<open>undefined\<close> in
  \<open>data\<close> keeps its stored value; \<open>account_id: null\<close> detaches the row; a new account
  must exist (foreign key).
\<close>

definition apply_update_body :: "update_body \<Rightarrow> transactions_row \<Rightarrow> transactions_row" where
  "apply_update_body b t =
     t\<lparr>tx_account_id := (case ub_account_id b of None \<Rightarrow> tx_account_id t | Some v \<Rightarrow> v),
       tx_amount := (case ub_amount b of None \<Rightarrow> tx_amount t | Some m \<Rightarrow> m),
       tx_type := (case ub_type b of None \<Rightarrow> tx_type t | Some ty \<Rightarrow> ty),
       tx_description := (case ub_description b of None \<Rightarrow> tx_description t | Some d \<Rightarrow> Some d),
       tx_reference := (case ub_reference b of None \<Rightarrow> tx_reference t | Some r \<Rightarrow> Some r),
       tx_notes := (case ub_notes b of None \<Rightarrow> tx_notes t | Some n \<Rightarrow> Some n)\<rparr>"

definition prisma_transactions_update :: "uuid \<Rightarrow> update_body \<Rightarrow> store \<Rightarrow> failure + store" where
  "prisma_transactions_update i b s =
     (if i \<notin> tx_id ` set (transactions s) then Inl (Http500 ''Record to update not found'')
      else case ub_account_id b of
        Some (Some a) \<Rightarrow>
          if accounts s a = None then Inl (Http500 ''Foreign key constraint failed'')
          else Inr (s\<lparr>transactions :=
                 map (\<lambda>t. if tx_id t = i then apply_update_body b t else t) (transactions s)\<rparr>)
      | _ \<Rightarrow> Inr (s\<lparr>transactions :=
                 map (\<lambda>t. if tx_id t = i then apply_update_body b t else t) (transactions s)\<rparr>))"

text \<open>
  \<open>updateTransaction\<close>. The existing row is fetched by id and owner (404 otherwise).
  Inside one unit: the old delta is reverted on the old account, the row is updated, and
  for a truthy \<open>account_id\<close> of the body the new delta is applied, computed from the
  body's \<open>type\<close> and \<open>amount\<close>. \<open>Number(undefined)\<close> is \<open>NaN\<close>; the model takes an
  increment by \<open>NaN\<close> to be refused by the store.
\<close>

definition updateTransaction :: "store \<Rightarrow> uuid \<Rightarrow> uuid \<Rightarrow> update_body \<Rightarrow> failure + store" where
  "updateTransaction s userId i b =
     (case find (\<lambda>t. tx_id t = i \<and> tx_user_id t = userId) (transactions s) of
        None \<Rightarrow> Inl (Http404 ''Transaction not found'')
      | Some existingTransaction \<Rightarrow>
          and_then
            (and_then
               (case tx_account_id existingTransaction of
                  None \<Rightarrow> Inr s
                | Some old \<Rightarrow>
                    if old = [] then Inr s
                    else prisma_accounts_increment old
                           (if tx_type existingTransaction = ''income''
                            then - tx_amount existingTransaction
                            else tx_amount existingTransaction) s)
               (prisma_transactions_update i b))
            (\<lambda>s2.
               case ub_account_id b of
                 Some (Some a) \<Rightarrow>
                   if a = [] then Inr s2
                   else (case ub_amount b of
                           None \<Rightarrow> Inl (Http500 ''Invalid increment'')
                         | Some m \<Rightarrow>
                             prisma_accounts_increment a
                               (if ub_type b = Some ''income'' then m else - m) s2)
               | _ \<Rightarrow> Inr s2))"

text \<open>
  \<open>deleteTransaction\<close>: fetch by id and owner, revert the delta on the referenced
  account, delete the row.
\<close>

definition deleteTransaction :: "store \<Rightarrow> uuid \<Rightarrow> uuid \<Rightarrow> failure + store" where
  "deleteTransaction s userId i =
     (case find (\<lambda>t. tx_id t = i \<and> tx_user_id t = userId) (transactions s) of
        None \<Rightarrow> Inl (Http404 ''Transaction not found'')
      | Some transaction \<Rightarrow>
          and_then
            (case tx_account_id transaction of
               None \<Rightarrow> Inr s
             | Some a \<Rightarrow>
                 if a = [] then Inr s
                 else prisma_accounts_increment a
                        (if tx_type transaction = ''income''
                         then - tx_amount transaction else tx_amount transaction) s)
            (\<lambda>s1. if i \<notin> tx_id ` set (transactions s1)
                   then Inl (Http500 ''Record to delete does not exist'')
                   else Inr (s1\<lparr>transactions := filter (\<lambda>t. tx_id t \<noteq> i) (transactions s1)\<rparr>)))"

text \<open>
  A failed handler leaves the store as it was (the unit is rolled back); \<open>committed\<close> is
  the store after the call either way.
\<close>

definition committed :: "store \<Rightarrow> failure + store \<Rightarrow> store" where
  "committed s r = (case r of Inl e \<Rightarrow> s | Inr s' \<Rightarrow> s')"

text \<open>The signed amount of a row, and the ledger sum of an account.\<close>

definition signed_amount :: "transactions_row \<Rightarrow> rat" where
  "signed_amount t = (if tx_type t = ''income'' then tx_amount t else - tx_amount t)"

definition ledger_sum :: "store \<Rightarrow> uuid \<Rightarrow> rat" where
  "ledger_sum s a =
     sum_list (map signed_amount (filter (\<lambda>t. tx_account_id t = Some a) (transactions s)))"

definition balance_of :: "store \<Rightarrow> uuid \<Rightarrow> rat option" where
  "balance_of s a = map_option balance (accounts s a)"

text \<open>
  \<open>createAccount\<close> of the account controller: an account is opened with the balance of
  the request body, 0 when it gives none.
\<close>

definition createAccount :: "store \<Rightarrow> uuid \<Rightarrow> uuid \<Rightarrow> rat option \<Rightarrow> failure + store" where
  "createAccount s userId new_id opening_balance =
     (if accounts s new_id \<noteq> None then Inl (Http500 ''Failed to create account'')
      else Inr (s\<lparr>accounts := (accounts s)(new_id \<mapsto>
             \<lparr>acc_user_id = userId,
              balance = (case opening_balance of None \<Rightarrow> 0 | Some v \<Rightarrow> v)\<rparr>)\<rparr>))"

text \<open>
  The balance invariant of the ledger: every account holds its opening balance plus the
  sum of its transactions.
  \<open>keys_ok\<close> is what the store enforces by itself: unique transaction ids, no account
  with the empty id, and every referenced account present. An update body is complete
  when it gives \<open>account_id\<close> (an id or \<open>null\<close>) and, with an id, also \<open>amount\<close> and
  \<open>type\<close>. \<open>handle\<close> is one request as the store sees it: the committed result, or the
  store unchanged when the handler failed.
\<close>

definition balanced :: "(uuid \<Rightarrow> rat) \<Rightarrow> store \<Rightarrow> bool" where
  "balanced opened_at s \<longleftrightarrow>
     (\<forall>a acc. accounts s a = Some acc \<longrightarrow> balance acc = opened_at a + ledger_sum s a)"

definition keys_ok :: "store \<Rightarrow> bool" where
  "keys_ok s \<longleftrightarrow>
     distinct (map tx_id (transactions s)) \<and> accounts s [] = None \<and>
     (\<forall>t \<in> set (transactions s). \<forall>a. tx_account_id t = Some a \<longrightarrow> accounts s a \<noteq> None)"

definition complete_body :: "update_body \<Rightarrow> bool" where
  "complete_body b \<longleftrightarrow>
     (case ub_account_id b of
        None \<Rightarrow> False
      | Some None \<Rightarrow> True
      | Some (Some a) \<Rightarrow> ub_amount b \<noteq> None \<and> ub_type b \<noteq> None)"

datatype request =
    Create uuid uuid create_body
  | Update uuid uuid update_body
  | Delete uuid uuid

fun handle :: "store \<Rightarrow> request \<Rightarrow> store" where
  "handle s (Create userId new_id b) = committed s (createTransaction s userId new_id b)"
| "handle s (Update userId i b) = committed s (updateTransaction s userId i b)"
| "handle s (Delete userId i) = committed s (deleteTransaction s userId i)"

fun complete_request :: "request \<Rightarrow> bool" where
  "complete_request (Update userId i b) = complete_body b"
| "complete_request r = True"

definition share :: "uuid \<Rightarrow> transactions_row \<Rightarrow> rat" where
  "share a t = (if tx_account_id t = Some a then signed_amount t else 0)"

section \<open>Import controller\<close>

subsection \<open>Reading a row\<close>

text \<open>
  \<open>row[mapping.field]\<close>: a property read. An optional mapping field that was not given is
  \<open>undefined\<close>, and the read then asks for the property named \<open>undefined\<close>.
\<close>

definition cell :: "csv_row \<Rightarrow> string \<Rightarrow> string option" where
  "cell row k = map_of row k"

definition cell_opt :: "csv_row \<Rightarrow> string option \<Rightarrow> string option" where
  "cell_opt row k = map_of row (case k of None \<Rightarrow> ''undefined'' | Some c \<Rightarrow> c)"

text \<open>\<open>x || d\<close> on a string that may be undefined: the empty string is falsy.\<close>

definition or_else :: "string option \<Rightarrow> string \<Rightarrow> string" where
  "or_else x d = (case x of None \<Rightarrow> d | Some v \<Rightarrow> if v = [] then d else v)"

text \<open>
  \<open>generateIdempotencyKey\<close>: the four cells are joined with \<open>|\<close> (\<open>Array.join\<close> writes
  \<open>undefined\<close> as the empty string) and the MD5 digest of the result, in hex, is the key.
  The digest function is a parameter of the model.
\<close>

definition keyFields :: "csv_row \<Rightarrow> column_mapping \<Rightarrow> string list" where
  "keyFields row mapping =
     [case cell row (m_date mapping) of None \<Rightarrow> [] | Some v \<Rightarrow> v,
      case cell row (m_amount mapping) of None \<Rightarrow> [] | Some v \<Rightarrow> v,
      case cell row (m_description mapping) of None \<Rightarrow> [] | Some v \<Rightarrow> v,
      or_else (cell_opt row (m_reference mapping)) []]"

fun join_bar :: "string list \<Rightarrow> string" where
  "join_bar [] = []"
| "join_bar [x] = x"
| "join_bar (x # y # ys) = x @ ''|'' @ join_bar (y # ys)"

definition generateIdempotencyKey :: "(string \<Rightarrow> string) \<Rightarrow> csv_row \<Rightarrow> column_mapping \<Rightarrow> string" where
  "generateIdempotencyKey md5 row mapping = md5 (join_bar (keyFields row mapping))"

text \<open>
  \<open>parseFloat(row[mapping.amount]?.replace(/[^\d.-]/g, '') || '0')\<close>. After the replace
  only digits, \<open>.\<close> and \<open>-\<close> are left, so \<open>parseFloat\<close> is modelled on that alphabet: an
  optional \<open>-\<close>, digits, an optional \<open>.\<close> with digits, at least one digit in all; the
  longest such prefix is the number, and \<open>None\<close> is \<open>NaN\<close>.
\<close>

definition is_digit :: "char \<Rightarrow> bool" where
  "is_digit c \<longleftrightarrow> c \<in> set ''0123456789''"

definition digit_val :: "char \<Rightarrow> nat" where
  "digit_val c = length (takeWhile (\<lambda>d. d \<noteq> c) ''0123456789'')"

definition digits_val :: "string \<Rightarrow> nat" where
  "digits_val ds = foldl (\<lambda>n c. 10 * n + digit_val c) 0 ds"

definition strip_amount :: "string \<Rightarrow> string" where
  "strip_amount v = filter (\<lambda>c. is_digit c \<or> c = CHR ''.'' \<or> c = CHR ''-'') v"

definition parseFloat :: "string \<Rightarrow> rat option" where
  "parseFloat v =
     (let neg = (v \<noteq> [] \<and> hd v = CHR ''-'');
          r = (if neg then tl v else v);
          ip = takeWhile is_digit r;
          r1 = dropWhile is_digit r;
          fp = (if r1 \<noteq> [] \<and> hd r1 = CHR ''.'' then takeWhile is_digit (tl r1) else [])
      in if ip = [] \<and> fp = [] then None
         else Some ((if neg then - 1 else 1) *
                    (of_nat (digits_val (ip @ fp)) / 10 ^ length fp)))"

definition parse_amount :: "csv_row \<Rightarrow> column_mapping \<Rightarrow> rat option" where
  "parse_amount row mapping =
     parseFloat (or_else (map_option strip_amount (cell row (m_amount mapping))) ''0'')"

subsection \<open>Handlers\<close>

text \<open>
  \<open>uploadCSV\<close>, after the file was parsed into \<open>csvData\<close>: an empty file is refused;
  otherwise a job is created in \<open>pending\<close> with the row count of the file and its
  first five rows as preview.
\<close>

definition uploadCSV :: "store \<Rightarrow> uuid \<Rightarrow> uuid \<Rightarrow> string \<Rightarrow> csv_row list \<Rightarrow> failure + store" where
  "uploadCSV s userId new_id fname csvData =
     (if csvData = [] then Inl (Http400 ''CSV file is empty'')
      else if import_jobs s new_id \<noteq> None then Inl (Http500 ''Failed to process CSV file'')
      else Inr (s\<lparr>import_jobs := (import_jobs s)(new_id \<mapsto>
             \<lparr>job_user_id = userId, filename = fname, total_rows = length csvData,
              status = Pending, preview_data = Some (take 5 csvData), mapping_data = None,
              processed_rows = 0, successful_rows = 0, failed_rows = 0,
              error_log = None\<rparr>)\<rparr>))"

text \<open>\<open>findFirst({ where: { id: jobId, user_id: userId } })\<close>.\<close>

definition find_job :: "store \<Rightarrow> uuid \<Rightarrow> uuid \<Rightarrow> import_jobs_row option" where
  "find_job s jobId userId =
     (case import_jobs s jobId of
        None \<Rightarrow> None
      | Some j \<Rightarrow> if job_user_id j = userId then Some j else None)"

definition configureMapping :: "store \<Rightarrow> uuid \<Rightarrow> uuid \<Rightarrow> column_mapping \<Rightarrow> failure + store" where
  "configureMapping s userId jobId mapping =
     (case find_job s jobId userId of
        None \<Rightarrow> Inl (Http404 ''Import job not found'')
      | Some importJob \<Rightarrow>
          Inr (s\<lparr>import_jobs := (import_jobs s)(jobId \<mapsto>
                 importJob\<lparr>mapping_data := Some mapping, status := Configured\<rparr>)\<rparr>))"

text \<open>
  \<open>processImport\<close>, the foreground part: the job must be the caller's and carry a mapping;
  its status becomes \<open>processing\<close> and the background processor is started.
\<close>

definition processImport :: "store \<Rightarrow> uuid \<Rightarrow> uuid \<Rightarrow> failure + store" where
  "processImport s userId jobId =
     (case find_job s jobId userId of
        None \<Rightarrow> Inl (Http404 ''Import job or mapping not found'')
      | Some importJob \<Rightarrow>
          if mapping_data importJob = None
          then Inl (Http404 ''Import job or mapping not found'')
          else Inr (s\<lparr>import_jobs := (import_jobs s)(jobId \<mapsto> importJob\<lparr>status := Processing\<rparr>)\<rparr>))"

subsection \<open>The background processor\<close>

text \<open>
  The object literal given to \<open>import_rows.create\<close>. All four literals of
  \<open>processImportJob\<close> write the key as the shorthand property \<open>idempotency_key\<close>, and no
  identifier of that name is declared anywhere (the key is held in \<open>idempotencyKey\<close>):
  evaluating the literal throws \<open>ReferenceError\<close> before Prisma is called, whatever the
  other fields are, and no import row is written.
\<close>

definition import_rows_create ::
  "uuid \<Rightarrow> nat \<Rightarrow> csv_row \<Rightarrow> row_status \<Rightarrow> string option \<Rightarrow> uuid option \<Rightarrow> store \<Rightarrow> string + store" where
  "import_rows_create jobId n row st msg txid s = Inl ''idempotency_key is not defined''"

definition failure_message :: "failure \<Rightarrow> string" where
  "failure_message e = (case e of Http400 m \<Rightarrow> m | Http404 m \<Rightarrow> m | Http500 m \<Rightarrow> m)"

text \<open>
  The \<open>try\<close> block of one iteration, for the row at index \<open>i\<close>. The state of the loop is
  the store with the two counters; \<open>Inl\<close> is a throw, with its message and the store as
  it is then (nothing is rolled back: the processor opens no transaction). \<open>date_ok\<close>
  says whether \<open>new Date(text)\<close> is a valid date (\<open>new Date(undefined)\<close> is not);
  \<open>gen_uuid i\<close> is the id the store generates for the transaction of row \<open>i\<close>. The
  duplicate lookup is \<open>findFirst\<close> on the key alone.
\<close>

definition try_row ::
  "(string \<Rightarrow> string) \<Rightarrow> (string \<Rightarrow> bool) \<Rightarrow> (nat \<Rightarrow> uuid) \<Rightarrow> uuid \<Rightarrow> import_jobs_row \<Rightarrow>
   column_mapping \<Rightarrow> nat \<Rightarrow> csv_row \<Rightarrow> store \<times> nat \<times> nat \<Rightarrow>
   (string \<times> store) + (store \<times> nat \<times> nat)" where
  "try_row md5 date_ok gen_uuid jobId importJob mapping i row st =
     (case st of (s, successCount, failureCount) \<Rightarrow>
      let idempotencyKey = generateIdempotencyKey md5 row mapping in
      if find (\<lambda>r. idempotency_key r = idempotencyKey) (import_rows s) \<noteq> None
      then (case import_rows_create jobId (i + 1) row Duplicate
                   (Some ''Duplicate transaction detected'') None s of
              Inl e \<Rightarrow> Inl (e, s)
            | Inr s1 \<Rightarrow> Inr (s1, successCount, failureCount + 1))
      else
        let amount = parse_amount row mapping;
            txDate = (case cell row (m_date mapping) of None \<Rightarrow> False | Some d \<Rightarrow> date_ok d);
            description = cell row (m_description mapping)
        in if amount = None \<or> description = None \<or> description = Some [] \<or> \<not> txDate
           then (case import_rows_create jobId (i + 1) row RowFailed
                        (Some ''Invalid data format'') None s of
                   Inl e \<Rightarrow> Inl (e, s)
                 | Inr s1 \<Rightarrow> Inr (s1, successCount, failureCount + 1))
           else
             (case prisma_transactions_create
                     \<lparr>tx_id = gen_uuid i, tx_user_id = job_user_id importJob,
                      tx_account_id = None, tx_amount = the amount,
                      tx_type = or_else (cell_opt row (m_type mapping)) ''expense'',
                      tx_description = description,
                      tx_reference =
                        (case cell_opt row (m_reference mapping) of
                           None \<Rightarrow> None | Some r \<Rightarrow> if r = [] then None else Some r),
                      tx_notes = Some (''Imported from '' @ filename importJob)\<rparr> s of
                Inl e \<Rightarrow> Inl (failure_message e, s)
              | Inr s1 \<Rightarrow>
                  (case import_rows_create jobId (i + 1) row Processed None
                          (Some (gen_uuid i)) s1 of
                     Inl e \<Rightarrow> Inl (e, s1)
                   | Inr s2 \<Rightarrow> Inr (s2, successCount + 1, failureCount))))"

text \<open>
  One iteration with its \<open>catch\<close>: a throw of the \<open>try\<close> block is answered by one more
  \<open>import_rows.create\<close>, for a \<open>failed\<close> row with the message of the error, and one more
  failure; a throw of that call leaves the iteration and the loop.
\<close>

definition process_row ::
  "(string \<Rightarrow> string) \<Rightarrow> (string \<Rightarrow> bool) \<Rightarrow> (nat \<Rightarrow> uuid) \<Rightarrow> uuid \<Rightarrow> import_jobs_row \<Rightarrow>
   column_mapping \<Rightarrow> nat \<Rightarrow> csv_row \<Rightarrow> store \<times> nat \<times> nat \<Rightarrow>
   (string \<times> store) + (store \<times> nat \<times> nat)" where
  "process_row md5 date_ok gen_uuid jobId importJob mapping i row st =
     (case try_row md5 date_ok gen_uuid jobId importJob mapping i row st of
        Inr st' \<Rightarrow> Inr st'
      | Inl (e, s_thrown) \<Rightarrow>
          (case st of (s, successCount, failureCount) \<Rightarrow>
             (case import_rows_create jobId (i + 1) row RowFailed (Some e) None s_thrown of
                Inl e' \<Rightarrow> Inl (e', s_thrown)
              | Inr s1 \<Rightarrow> Inr (s1, successCount, failureCount + 1))))"

text \<open>The \<open>for\<close> loop: a throw that leaves an iteration ends it.\<close>

fun process_rows ::
  "(string \<Rightarrow> string) \<Rightarrow> (string \<Rightarrow> bool) \<Rightarrow> (nat \<Rightarrow> uuid) \<Rightarrow> uuid \<Rightarrow> import_jobs_row \<Rightarrow>
   column_mapping \<Rightarrow> nat \<Rightarrow> csv_row list \<Rightarrow> store \<times> nat \<times> nat \<Rightarrow>
   (string \<times> store) + (store \<times> nat \<times> nat)" where
  "process_rows md5 date_ok gen_uuid jobId importJob mapping i [] st = Inr st"
| "process_rows md5 date_ok gen_uuid jobId importJob mapping i (row # rows) st =
     (case process_row md5 date_ok gen_uuid jobId importJob mapping i row st of
        Inl thrown \<Rightarrow> Inl thrown
      | Inr st' \<Rightarrow> process_rows md5 date_ok gen_uuid jobId importJob mapping (i + 1) rows st')"

text \<open>
  After the loop: the job becomes \<open>completed\<close> with the three counters, and the
  notification carries the same two counts.
\<close>

definition complete_job :: "uuid \<Rightarrow> import_jobs_row \<Rightarrow> nat \<Rightarrow> store \<times> nat \<times> nat \<Rightarrow> store" where
  "complete_job jobId importJob n st =
     (case st of (s, successCount, failureCount) \<Rightarrow>
      (case import_jobs s jobId of
         None \<Rightarrow> s
       | Some j \<Rightarrow>
           s\<lparr>import_jobs := (import_jobs s)(jobId \<mapsto>
                j\<lparr>status := Completed, processed_rows := n,
                  successful_rows := successCount, failed_rows := failureCount\<rparr>),
             notifications := notifications s @
                [\<lparr>n_user_id = job_user_id importJob, n_type = ''import_complete'',
                  n_jobId = jobId, n_successCount = successCount,
                  n_failureCount = failureCount\<rparr>]\<rparr>))"

text \<open>The outer \<open>catch\<close>: the job becomes \<open>failed\<close> and the message goes to its error log.\<close>

definition fail_job :: "uuid \<Rightarrow> string \<Rightarrow> store \<Rightarrow> store" where
  "fail_job jobId msg s =
     (case import_jobs s jobId of
        None \<Rightarrow> s
      | Some j \<Rightarrow>
          s\<lparr>import_jobs := (import_jobs s)(jobId \<mapsto> j\<lparr>status := Failed, error_log := Some msg\<rparr>)\<rparr>)"

text \<open>
  \<open>processImportJob\<close>: the rows it visits are the stored preview (\<open>preview_data\<close>), not the
  uploaded file. Reading the length of a missing preview, or a field of a missing
  mapping, throws outside the per-row \<open>try\<close>; that and a throw that leaves the loop end
  in the outer \<open>catch\<close>, which fails the job. Only a loop that runs to its end reaches
  the update to \<open>completed\<close> and the notification.
\<close>

definition processImportJob ::
  "(string \<Rightarrow> string) \<Rightarrow> (string \<Rightarrow> bool) \<Rightarrow> (nat \<Rightarrow> uuid) \<Rightarrow> store \<Rightarrow> uuid \<Rightarrow> store" where
  "processImportJob md5 date_ok gen_uuid s jobId =
     (case import_jobs s jobId of
        None \<Rightarrow> s
      | Some importJob \<Rightarrow>
          (case preview_data importJob of
             None \<Rightarrow> fail_job jobId ''Cannot read properties of null'' s
           | Some csvData \<Rightarrow>
               (case mapping_data importJob of
                  None \<Rightarrow>
                    if csvData = [] then complete_job jobId importJob 0 (s, 0, 0)
                    else fail_job jobId ''Cannot read properties of null'' s
                | Some mapping \<Rightarrow>
                    (case process_rows md5 date_ok gen_uuid jobId importJob mapping 0 csvData
                            (s, 0, 0) of
                       Inl (e, s_thrown) \<Rightarrow> fail_job jobId e s_thrown
                     | Inr st \<Rightarrow> complete_job jobId importJob (length csvData) st))))"

text \<open>
  A request to process followed by the background run, taken to completion before
  anything else touches the store.
\<close>

definition process_and_run ::
  "(string \<Rightarrow> string) \<Rightarrow> (string \<Rightarrow> bool) \<Rightarrow> (nat \<Rightarrow> uuid) \<Rightarrow> store \<Rightarrow> uuid \<Rightarrow> uuid \<Rightarrow> failure + store" where
  "process_and_run md5 date_ok gen_uuid s userId jobId =
     (case processImport s userId jobId of
        Inl e \<Rightarrow> Inl e
      | Inr s1 \<Rightarrow> Inr (processImportJob md5 date_ok gen_uuid s1 jobId))"

text \<open>The three requests of one import in a row: upload, mapping, process.\<close>

definition import_file ::
  "(string \<Rightarrow> string) \<Rightarrow> (string \<Rightarrow> bool) \<Rightarrow> (nat \<Rightarrow> uuid) \<Rightarrow> store \<Rightarrow> uuid \<Rightarrow> uuid \<Rightarrow> string \<Rightarrow>
   csv_row list \<Rightarrow> column_mapping \<Rightarrow> failure + store" where
  "import_file md5 date_ok gen_uuid s userId jobId fname csvData mapping =
     (case uploadCSV s userId jobId fname csvData of
        Inl e \<Rightarrow> Inl e
      | Inr s1 \<Rightarrow>
          (case configureMapping s1 userId jobId mapping of
             Inl e \<Rightarrow> Inl e
           | Inr s2 \<Rightarrow> process_and_run md5 date_ok gen_uuid s2 userId jobId))"

text \<open>
  An instance of \<open>date_ok\<close> for examples: calendar dates written \<open>YYYY-MM-DD\<close> with
  a month from 01 to 12 and a day from 01 to 28, which every implementation of \<open>Date\<close>
  accepts.
\<close>

definition iso_date :: "string \<Rightarrow> bool" where
  "iso_date d \<longleftrightarrow>
     length d = 10 \<and> d ! 4 = CHR ''-'' \<and> d ! 7 = CHR ''-'' \<and>
     list_all is_digit (take 4 d) \<and> list_all is_digit (take 2 (drop 5 d)) \<and>
     list_all is_digit (drop 8 d) \<and>
     digits_val (take 2 (drop 5 d)) \<in> {1..12} \<and> digits_val (drop 8 d) \<in> {1..28}"

text \<open>The empty store.\<close>

definition empty_store :: store where
  "empty_store = \<lparr>accounts = Map.empty, transactions = [], import_jobs = Map.empty,
                  import_rows = [], notifications = []\<rparr>"

section \<open>Example stores and requests\<close>

text \<open>
  Two accounts of two users; \<open>u1\<close> records a salary of 100 on its account \<open>A\<close> and then
  sends an update that only renames the transaction.
\<close>

definition ledger0 :: store where
  "ledger0 = empty_store\<lparr>accounts :=
     [''A'' \<mapsto> \<lparr>acc_user_id = ''u1'', balance = 0\<rparr>,
      ''B'' \<mapsto> \<lparr>acc_user_id = ''u2'', balance = 50\<rparr>]\<rparr>"

definition salary :: create_body where
  "salary = \<lparr>cb_account_id = Some ''A'', cb_amount = 100, cb_type = ''income'',
             cb_description = Some ''salary'', cb_reference = None, cb_notes = None\<rparr>"

definition rename_only :: update_body where
  "rename_only = \<lparr>ub_account_id = None, ub_amount = None, ub_type = None,
                  ub_description = Some ''pay'', ub_reference = None, ub_notes = None\<rparr>"

definition same_amount :: update_body where
  "same_amount = \<lparr>ub_account_id = None, ub_amount = Some 100, ub_type = Some ''income'',
                  ub_description = None, ub_reference = None, ub_notes = None\<rparr>"

definition ledger1 :: store where
  "ledger1 = committed ledger0 (createTransaction ledger0 ''u1'' ''t1'' salary)"

definition ledger2 :: store where
  "ledger2 = committed ledger1 (updateTransaction ledger1 ''u1'' ''t1'' rename_only)"

definition groceries_on_B :: create_body where
  "groceries_on_B = \<lparr>cb_account_id = Some ''B'', cb_amount = 30, cb_type = ''expense'',
             cb_description = Some ''groceries'', cb_reference = None, cb_notes = None\<rparr>"

text \<open>
  An account opened with a balance of 50, and a day of requests on it: an expense, a
  change of its amount, an income, and the deletion of the expense.
\<close>

definition opened :: store where
  "opened = committed empty_store (createAccount empty_store ''u2'' ''B'' (Some 50))"

definition busy_day :: "request list" where
  "busy_day =
     [Create ''u2'' ''t1'' groceries_on_B,
      Update ''u2'' ''t1''
        \<lparr>ub_account_id = Some (Some ''B''), ub_amount = Some 45, ub_type = Some ''expense'',
         ub_description = None, ub_reference = None, ub_notes = None\<rparr>,
      Create ''u2'' ''t2''
        \<lparr>cb_account_id = Some ''B'', cb_amount = 100, cb_type = ''income'',
         cb_description = Some ''salary'', cb_reference = None, cb_notes = None\<rparr>,
      Delete ''u2'' ''t1'']"

text \<open>A mapping, two rows whose cells differ but join to the same text, a finished job.\<close>

definition mapping0 :: column_mapping where
  "mapping0 = \<lparr>m_date = ''Date'', m_amount = ''Amount'', m_description = ''Description'',
               m_type = None, m_category = None, m_account = None, m_reference = Some ''Ref''\<rparr>"

definition row_a :: csv_row where
  "row_a = [(''Date'', ''2024-01-15''), (''Amount'', ''10''), (''Description'', ''a|b''),
            (''Ref'', ''c'')]"

definition row_b :: csv_row where
  "row_b = [(''Date'', ''2024-01-15''), (''Amount'', ''10''), (''Description'', ''a''),
            (''Ref'', ''b|c'')]"


text \<open>Rows that agree on the four key cells, and one that does not.\<close>

definition row_c :: csv_row where
  "row_c = [(''Date'', ''2024-01-15''), (''Amount'', ''12.50''), (''Description'', ''coffee''),
            (''Ref'', ''r1''), (''Balance'', ''100'')]"

definition row_c2 :: csv_row where
  "row_c2 = [(''Date'', ''2024-01-15''), (''Amount'', ''12.50''), (''Description'', ''coffee''),
            (''Ref'', ''r1''), (''Balance'', ''200'')]"

definition row_d :: csv_row where
  "row_d = [(''Date'', ''2024-01-15''), (''Amount'', ''12.50''), (''Description'', ''tea''),
            (''Ref'', ''r1''), (''Balance'', ''100'')]"

text \<open>Jobs ready for the processor, and the rows they hold.\<close>

definition coffee_row :: csv_row where
  "coffee_row = [(''Date'', ''2024-01-15''), (''Amount'', ''12.50''), (''Description'', ''coffee''),
                 (''Ref'', ''r1'')]"

definition job_of :: "uuid \<Rightarrow> csv_row list \<Rightarrow> column_mapping \<Rightarrow> import_jobs_row" where
  "job_of userId rows mapping =
     \<lparr>job_user_id = userId, filename = ''bank.csv'', total_rows = length rows,
      status = Processing, preview_data = Some rows, mapping_data = Some mapping,
      processed_rows = 0, successful_rows = 0, failed_rows = 0, error_log = None\<rparr>"

definition store_with :: "csv_row list \<Rightarrow> column_mapping \<Rightarrow> store" where
  "store_with rows mapping = empty_store\<lparr>import_jobs := [''j1'' \<mapsto> job_of ''u1'' rows mapping]\<rparr>"

definition bad_row :: csv_row where
  "bad_row = [(''Date'', ''2024-01-16''), (''Amount'', ''--5''), (''Description'', ''fee''),
              (''Ref'', ''r2'')]"

definition refund_row :: csv_row where
  "refund_row = [(''Date'', ''2024-01-18''), (''Amount'', ''-5''), (''Description'', ''refund''),
                 (''Ref'', ''r4''), (''Type'', ''transfer'')]"

definition mapping_typed :: column_mapping where
  "mapping_typed = mapping0\<lparr>m_type := Some ''Type''\<rparr>"

definition refund_body :: create_body where
  "refund_body = \<lparr>cb_account_id = None, cb_amount = - 5, cb_type = ''transfer'',
                  cb_description = Some ''refund'', cb_reference = Some ''r4'',
                  cb_notes = Some ''Imported from bank.csv''\<rparr>"

text \<open>
  A store in which the import table already holds an outcome of owner \<open>u1\<close> for the
  coffee row, under the job \<open>j0\<close>, and \<open>u1\<close> has a second job \<open>j1\<close> with the same row.
\<close>

definition known_key_store :: "(string \<Rightarrow> string) \<Rightarrow> store" where
  "known_key_store md5 =
     empty_store\<lparr>import_jobs :=
        [''j0'' \<mapsto> (job_of ''u1'' [coffee_row] mapping0)\<lparr>status := Completed\<rparr>,
         ''j1'' \<mapsto> job_of ''u1'' [coffee_row] mapping0],
       import_rows :=
        [\<lparr>import_job_id = ''j0'', row_number = 1,
          idempotency_key = generateIdempotencyKey md5 coffee_row mapping0,
          raw_data = coffee_row, row_status = Processed, error_message = None,
          transaction_id = Some ''t0''\<rparr>],
       transactions :=
        [\<lparr>tx_id = ''t0'', tx_user_id = ''u1'', tx_account_id = None, tx_amount = 25 / 2,
          tx_type = ''expense'', tx_description = Some ''coffee'', tx_reference = Some ''r1'',
          tx_notes = Some ''Imported from bank.csv''\<rparr>]\<rparr>"

section \<open>The ledger under create, update and delete\<close>

lemmas ledger_defs = ledger0_def ledger1_def ledger2_def salary_def rename_only_def
  same_amount_def groceries_on_B_def empty_store_def
  committed_def createTransaction_def updateTransaction_def and_then_def
  prisma_transactions_create_def prisma_accounts_increment_def prisma_transactions_update_def
  apply_update_body_def balance_of_def ledger_sum_def signed_amount_def
  createTransactionSchema_def updateTransactionSchema_def createAccount_def opened_def
  deleteTransaction_def

text \<open>
  Create, delete and an update with a complete body each keep the invariant; an update
  from account \<open>A\<close> to account \<open>B\<close> that sends the full body moves the amount from
  \<open>A\<close> to \<open>B\<close>.
\<close>

lemma filter_share:
  "sum_list (map signed_amount (filter (\<lambda>t. tx_account_id t = Some a) xs)) =
   sum_list (map (share a) xs)"
  by (induction xs) (simp_all add: share_def)

lemma ledger_sum_share: "ledger_sum s a = sum_list (map (share a) (transactions s))"
  by (simp add: ledger_sum_def filter_share)

lemma sum_replace:
  assumes "distinct (map tx_id xs)" "t \<in> set xs"
  shows "sum_list (map h (map (\<lambda>x. if tx_id x = tx_id t then g x else x) xs)) =
     sum_list (map h xs) - h t + (h (g t) :: rat)"
  using assms
proof (induction xs)
  case Nil
  then show ?case by simp
next
  case (Cons x xs)
  show ?case
  proof (cases "x = t")
    case True
    with Cons.prems have "tx_id t \<notin> tx_id ` set xs" by simp
    then have "\<forall>y \<in> set xs. tx_id y \<noteq> tx_id t" by (metis imageI)
    then have "map (\<lambda>x. if tx_id x = tx_id t then g x else x) xs = xs"
      by (induction xs) auto
    with True show ?thesis by simp
  next
    case False
    with Cons.prems have "t \<in> set xs" "tx_id x \<noteq> tx_id t" "distinct (map tx_id xs)"
      by auto
    with Cons.IH show ?thesis by simp
  qed
qed

lemma sum_remove:
  assumes "distinct (map tx_id xs)" "t \<in> set xs"
  shows "sum_list (map h (filter (\<lambda>x. tx_id x \<noteq> tx_id t) xs)) =
     sum_list (map h xs) - (h t :: rat)"
  using assms
proof (induction xs)
  case Nil
  then show ?case by simp
next
  case (Cons x xs)
  show ?case
  proof (cases "x = t")
    case True
    with Cons.prems have "tx_id t \<notin> tx_id ` set xs" by simp
    then have "\<forall>y \<in> set xs. tx_id y \<noteq> tx_id t" by (metis imageI)
    then have "filter (\<lambda>x. tx_id x \<noteq> tx_id t) xs = xs"
      by (induction xs) auto
    with True show ?thesis by simp
  next
    case False
    with Cons.prems have "t \<in> set xs" "tx_id x \<noteq> tx_id t" "distinct (map tx_id xs)"
      by auto
    with Cons.IH show ?thesis by simp
  qed
qed

lemma find_owned:
  "find (\<lambda>t. tx_id t = i \<and> tx_user_id t = u) xs = Some t \<Longrightarrow> t \<in> set xs \<and> tx_id t = i"
  by (auto simp: find_Some_iff)

lemma createTransaction_keeps_balance:
  assumes "createTransaction s userId new_id b = Inr s'" "keys_ok s" "balanced opened_at s"
  shows "keys_ok s' \<and> balanced opened_at s'"
  using assms
  by (auto simp: createTransaction_def and_then_def prisma_transactions_create_def
      prisma_accounts_increment_def keys_ok_def balanced_def ledger_sum_share share_def
      signed_amount_def split: option.splits if_splits)


lemma deleteTransaction_keeps_balance:
  assumes del: "deleteTransaction s userId i = Inr s'" and ok: "keys_ok s" and bal: "balanced opened_at s"
  shows "keys_ok s' \<and> balanced opened_at s'"
proof -
  from del obtain t where f: "find (\<lambda>t. tx_id t = i \<and> tx_user_id t = userId) (transactions s) = Some t"
    by (auto simp: deleteTransaction_def split: option.splits)
  then have t: "t \<in> set (transactions s)" "tx_id t = i"
    using find_owned by blast+
  from ok have d: "distinct (map tx_id (transactions s))"
    by (simp add: keys_ok_def)
  have sums: "sum_list (map (share a) (filter (\<lambda>x. tx_id x \<noteq> i) (transactions s))) =
      ledger_sum s a - share a t" for a
    using sum_remove [OF d t(1), of "share a"] t(2) by (simp add: ledger_sum_share)
  have dist: "distinct (map tx_id (filter (\<lambda>x. tx_id x \<noteq> i) (transactions s)))"
    using d by (simp add: distinct_map_filter)
  show ?thesis
  proof (cases "tx_account_id t")
    case None
    with del f t have s': "s' = s\<lparr>transactions := filter (\<lambda>x. tx_id x \<noteq> i) (transactions s)\<rparr>"
      by (auto simp: deleteTransaction_def and_then_def split: if_splits)
    from None have "share a t = 0" for a by (simp add: share_def)
    with sums bal ok dist show ?thesis
      by (auto simp: s' keys_ok_def balanced_def ledger_sum_share)
  next
    case (Some a0)
    with ok t(1) obtain acc where acc: "accounts s a0 = Some acc" and ne: "a0 \<noteq> []"
      by (fastforce simp: keys_ok_def)
    from Some del f t acc ne have s': "s' = s\<lparr>accounts := (accounts s)(a0 \<mapsto>
          acc\<lparr>balance := balance acc - signed_amount t\<rparr>),
        transactions := filter (\<lambda>x. tx_id x \<noteq> i) (transactions s)\<rparr>"
      by (auto simp: deleteTransaction_def and_then_def prisma_accounts_increment_def
          signed_amount_def split: if_splits)
    from Some have sh: "share a t = (if a = a0 then signed_amount t else 0)" for a
      by (auto simp: share_def)
    from sums sh bal ok dist acc show ?thesis
      by (auto simp: s' keys_ok_def balanced_def ledger_sum_share)
  qed
qed


lemma tx_id_apply_update_body [simp]: "tx_id (apply_update_body b t) = tx_id t"
  by (simp add: apply_update_body_def)

lemma map_tx_id_update:
  "map tx_id (map (\<lambda>t. if tx_id t = i then apply_update_body b t else t) xs) = map tx_id xs"
  by (induction xs) auto

lemma signed_amount_updated:
  "ub_amount b = Some m \<Longrightarrow> ub_type b = Some ty \<Longrightarrow>
   signed_amount (apply_update_body b t) = (if ty = ''income'' then m else - m)"
  by (simp add: signed_amount_def apply_update_body_def)

lemma account_updated:
  "ub_account_id b = Some v \<Longrightarrow> tx_account_id (apply_update_body b t) = v"
  by (simp add: apply_update_body_def)

lemma updateTransaction_keeps_balance:
  assumes upd: "updateTransaction s userId i b = Inr s'" and ok: "keys_ok s" and bal: "balanced opened_at s"
    and full: "complete_body b"
  shows "keys_ok s' \<and> balanced opened_at s'"
proof -
  from upd obtain t where f: "find (\<lambda>t. tx_id t = i \<and> tx_user_id t = userId) (transactions s) = Some t"
    by (auto simp: updateTransaction_def split: option.splits)
  then have t: "t \<in> set (transactions s)" "tx_id t = i"
    using find_owned by blast+
  from ok have d: "distinct (map tx_id (transactions s))" and noempty: "accounts s [] = None"
    and fk: "\<forall>t \<in> set (transactions s). \<forall>a. tx_account_id t = Some a \<longrightarrow> accounts s a \<noteq> None"
    by (simp_all add: keys_ok_def)
  define txs' where "txs' = map (\<lambda>x. if tx_id x = i then apply_update_body b x else x) (transactions s)"
  have sums: "sum_list (map (share a) txs') =
      ledger_sum s a - share a t + share a (apply_update_body b t)" for a
    unfolding txs'_def using sum_replace [OF d t(1), of "share a" "apply_update_body b"] t(2)
    by (simp add: ledger_sum_share)
  have ids: "map tx_id txs' = map tx_id (transactions s)"
    unfolding txs'_def by (rule map_tx_id_update)
  have mem: "x \<in> set txs' \<Longrightarrow> x \<in> set (transactions s) \<or> x = apply_update_body b t" for x
    unfolding txs'_def using d t by (auto simp: distinct_map inj_on_def)
  have inset: "i \<in> tx_id ` set (transactions s)"
    using t by auto
  obtain v where v: "ub_account_id b = Some v"
    using full by (auto simp: complete_body_def split: option.splits)
  define A1 where "A1 = (case tx_account_id t of
      None \<Rightarrow> accounts s
    | Some old \<Rightarrow> (accounts s)(old \<mapsto> (the (accounts s old))\<lparr>balance :=
         balance (the (accounts s old)) - signed_amount t\<rparr>))"
  have dom1: "A1 a = None \<longleftrightarrow> accounts s a = None" for a
    using fk t(1) by (auto simp: A1_def split: option.splits)
  have bal1: "A1 a = Some acc \<Longrightarrow> balance acc = opened_at a + ledger_sum s a - share a t" for a acc
    using bal fk t(1) by (auto simp: A1_def balanced_def share_def split: option.splits if_splits)
  have step1: "(case tx_account_id t of
                  None \<Rightarrow> Inr s
                | Some old \<Rightarrow>
                    if old = [] then Inr s
                    else prisma_accounts_increment old
                           (if tx_type t = ''income'' then - tx_amount t else tx_amount t) s) =
      Inr (s\<lparr>accounts := A1\<rparr>)"
    using fk t(1) noempty
    by (auto simp: A1_def prisma_accounts_increment_def signed_amount_def split: option.splits)
  show ?thesis
  proof (cases v)
    case None
    with upd f v step1 inset have s': "s' = s\<lparr>accounts := A1, transactions := txs'\<rparr>"
      by (simp add: updateTransaction_def and_then_def prisma_transactions_update_def txs'_def)
    from None v have na: "tx_account_id (apply_update_body b t) = None"
      by (simp add: account_updated)
    then have z: "share a (apply_update_body b t) = 0" for a
      by (simp add: share_def)
    have "accounts s a \<noteq> None" if "x \<in> set txs'" "tx_account_id x = Some a" for x a
      using mem [OF that(1)] that(2) fk na by auto
    then have k: "keys_ok s'"
      unfolding s' keys_ok_def using d ids noempty dom1 by auto
    have "balanced opened_at s'"
      unfolding s' balanced_def using bal1 sums z by (simp add: ledger_sum_share)
    with k show ?thesis ..
  next
    case (Some n)
    with full v obtain m ty where mt: "ub_amount b = Some m" "ub_type b = Some ty"
      by (auto simp: complete_body_def)
    from upd f v Some step1 inset obtain acc where acc: "A1 n = Some acc" and ne: "n \<noteq> []"
      using noempty dom1 [of n] dom1 [of "[]"]
      by (auto simp: updateTransaction_def and_then_def prisma_transactions_update_def
          split: if_splits option.splits)
    from upd f v Some step1 inset acc ne mt
    have s': "s' = s\<lparr>accounts := A1(n \<mapsto> acc\<lparr>balance := balance acc +
          (if ty = ''income'' then m else - m)\<rparr>), transactions := txs'\<rparr>"
      by (auto simp: updateTransaction_def and_then_def prisma_transactions_update_def txs'_def
          prisma_accounts_increment_def)
    from Some v have na: "tx_account_id (apply_update_body b t) = Some n"
      by (simp add: account_updated)
    with mt have sh: "share a (apply_update_body b t) =
        (if a = n then (if ty = ''income'' then m else - m) else 0)" for a
      by (auto simp: share_def signed_amount_updated)
    have "A1 a \<noteq> None" if "x \<in> set txs'" "tx_account_id x = Some a" for x a
      using mem [OF that(1)] that(2) fk na acc dom1 [of a] by auto
    then have k: "keys_ok s'"
      unfolding s' keys_ok_def using d ids noempty dom1 [of "[]"] ne by auto
    have "balanced opened_at s'"
      unfolding s' balanced_def using bal1 sums sh acc by (auto simp: ledger_sum_share)
    with k show ?thesis ..
  qed
qed


lemma handle_keeps_balance:
  assumes "complete_request r" "keys_ok s" "balanced opened_at s"
  shows "keys_ok (handle s r) \<and> balanced opened_at (handle s r)"
proof (cases r)
  case (Create userId new_id b)
  with assms createTransaction_keeps_balance [of s userId new_id b]
  show ?thesis by (cases "createTransaction s userId new_id b") (auto simp: committed_def)
next
  case (Update userId i b)
  with assms updateTransaction_keeps_balance [of s userId i b]
  show ?thesis by (cases "updateTransaction s userId i b") (auto simp: committed_def)
next
  case (Delete userId i)
  with assms deleteTransaction_keeps_balance [of s userId i]
  show ?thesis by (cases "deleteTransaction s userId i") (auto simp: committed_def)
qed

lemma update_moves_delta:
  assumes "find (\<lambda>t. tx_id t = i \<and> tx_user_id t = userId) (transactions s) = Some t"
    and "tx_account_id t = Some A" "tx_type t = ''income''" "tx_amount t = m"
    and "accounts s A = Some accA" "accounts s B = Some accB" "A \<noteq> B" "A \<noteq> []" "B \<noteq> []"
    and "ub_account_id b = Some (Some B)" "ub_amount b = Some m" "ub_type b = Some ''income''"
  shows "\<exists>s'. updateTransaction s userId i b = Inr s' \<and>
     balance_of s' A = Some (balance accA - m) \<and> balance_of s' B = Some (balance accB + m) \<and>
     map tx_account_id (filter (\<lambda>x. tx_id x = i) (transactions s')) =
       map (\<lambda>x. Some B) (filter (\<lambda>x. tx_id x = i) (transactions s))"
proof -
  from assms(1) have "t \<in> set (transactions s)" "tx_id t = i"
    using find_owned by blast+
  then have inset: "i \<in> tx_id ` set (transactions s)" by auto
  have rows: "map tx_account_id (filter (\<lambda>x. tx_id x = i)
        (map (\<lambda>x. if tx_id x = i then apply_update_body b x else x) xs)) =
      map (\<lambda>x. Some B) (filter (\<lambda>x. tx_id x = i) xs)" for xs
    using assms(10) by (induction xs) (auto simp: account_updated)
  from assms inset rows show ?thesis
    by (simp add: updateTransaction_def and_then_def prisma_accounts_increment_def
        prisma_transactions_update_def balance_of_def)
qed


text \<open>
  Claim C1 as stated (after any sequence of committed create, update and delete
  mutations with valid inputs, the stored balance of an account is the sum of the signed
  amounts of the transactions that reference it) fails for an account that was opened
  with a balance: after one expense of 30 the account opened with 50 holds 20, and its
  transactions sum to -30.
\<close>

theorem C1_counterexample:
  "createTransactionSchema groceries_on_B \<and>
   balance_of opened ''B'' = Some 50 \<and> ledger_sum opened ''B'' = 0 \<and>
   (\<exists>s. createTransaction opened ''u2'' ''t1'' groceries_on_B = Inr s \<and>
        balance_of s ''B'' = Some 20 \<and> ledger_sum s ''B'' = - 30)"
  by (simp add: ledger_defs)

text \<open>
  Claim C1, amended: every sequence of committed creates, deletes and updates with a
  complete body keeps, for every account, the stored balance equal to its opening
  balance plus the sum of the signed amounts of the transactions that reference it;
  an account opened with 0 holds exactly that sum. Requests that fail leave the store
  as it was.
\<close>

theorem C1_balance_invariant:
  "list_all complete_request rs \<Longrightarrow> keys_ok s \<Longrightarrow>
   (\<forall>a acc. accounts s a = Some acc \<longrightarrow> balance acc = opened_at a + ledger_sum s a) \<Longrightarrow>
   keys_ok (foldl handle s rs) \<and>
   (\<forall>a acc. accounts (foldl handle s rs) a = Some acc \<longrightarrow>
      balance acc = opened_at a + ledger_sum (foldl handle s rs) a)"
proof (induction rs arbitrary: s)
  case Nil
  then show ?case by simp
next
  case (Cons r rs)
  from Cons.prems have "complete_request r" "list_all complete_request rs" by simp_all
  moreover from Cons.prems have "balanced opened_at s" by (simp add: balanced_def)
  ultimately show ?case
    using Cons.prems(2) handle_keeps_balance [where r = r and s = s and opened_at = opened_at]
      Cons.IH [of "handle s r"]
    by (simp add: balanced_def)
qed

theorem C1_balance_invariant_witness:
  "list_all complete_request busy_day \<and> keys_ok opened \<and>
   balance_of opened ''B'' = Some 50 \<and> ledger_sum opened ''B'' = 0 \<and>
   balance_of (foldl handle opened busy_day) ''B'' =
     Some (50 + ledger_sum (foldl handle opened busy_day) ''B'') \<and>
   ledger_sum (foldl handle opened busy_day) ''B'' = 100"
proof -
  have c: "list_all complete_request busy_day"
    by (simp add: busy_day_def complete_body_def)
  have k: "keys_ok opened"
    by (simp add: keys_ok_def ledger_defs)
  have b: "\<forall>a acc. accounts opened a = Some acc \<longrightarrow>
      balance acc = (if a = ''B'' then 50 else 0) + ledger_sum opened a"
    by (simp add: ledger_defs)
  have start: "balance_of opened ''B'' = Some 50" "ledger_sum opened ''B'' = 0"
    by (simp_all add: ledger_defs)
  have final: "accounts (foldl handle opened busy_day) ''B'' \<noteq> None"
    "ledger_sum (foldl handle opened busy_day) ''B'' = 100"
    by (simp_all add: busy_day_def ledger_defs)
  from C1_balance_invariant [OF c k, of "\<lambda>a. if a = ''B'' then 50 else 0"] b final(1)
  have "balance_of (foldl handle opened busy_day) ''B'' =
      Some (50 + ledger_sum (foldl handle opened busy_day) ''B'')"
    by (auto simp: balance_of_def)
  with c k start final(2) show ?thesis by simp
qed

text \<open>
  An update whose body leaves \<open>account_id\<close> out, which \<open>updateTransactionSchema\<close>
  accepts, is not complete, and it does break the invariant: the old delta is reverted,
  the row keeps its account, and nothing is applied again. The balance of \<open>A\<close> is 100
  after the create and 0 after the rename, while the one transaction of \<open>A\<close> still
  counts 100.
\<close>

lemma rename_only_update_breaks_balance:
  "createTransactionSchema salary \<and> updateTransactionSchema rename_only \<and>
   \<not> complete_body rename_only \<and>
   balance_of ledger0 ''A'' = Some (ledger_sum ledger0 ''A'') \<and>
   balance_of ledger1 ''A'' = Some 100 \<and> ledger_sum ledger1 ''A'' = 100 \<and>
   (\<exists>s. updateTransaction ledger1 ''u1'' ''t1'' rename_only = Inr s) \<and>
   balance_of ledger2 ''A'' = Some 0 \<and> ledger_sum ledger2 ''A'' = 100"
  by (simp add: ledger_defs complete_body_def)

text \<open>
  Claim C2 (update moves the delta exactly once: the old delta is reverted on the old
  account, the new field values are stored, the new delta is applied to the new account,
  and no account ends double-counted or zero-counted). The third step reads the account
  from the request body, not from the stored row: an update that sends amount and type
  but no \<open>account_id\<close> leaves the transaction on \<open>A\<close> and \<open>A\<close> without its 100.
\<close>

theorem C2_update_without_account_zero_counts:
  "updateTransactionSchema same_amount \<and>
   map tx_account_id (transactions ledger1) = [Some ''A''] \<and>
   balance_of ledger1 ''A'' = Some 100 \<and>
   (\<exists>s. updateTransaction ledger1 ''u1'' ''t1'' same_amount = Inr s \<and>
        map tx_account_id (transactions s) = [Some ''A''] \<and>
        map signed_amount (transactions s) = [100] \<and>
        balance_of s ''A'' = Some 0)"
  by (simp add: ledger_defs)

text \<open>
  Claim C3 (a create that references an account that does not exist, or one of another
  owner, fails with AccountNotFound, inserts no row and changes no balance). The handler looks
  the account up by id alone: \<open>u1\<close> books an expense of 30 on the account \<open>B\<close> of
  \<open>u2\<close>, the row is inserted and the balance of \<open>B\<close> goes from 50 to 20.
\<close>

theorem C3_foreign_account_accepted:
  "createTransactionSchema groceries_on_B \<and>
   map_option acc_user_id (accounts ledger0 ''B'') = Some ''u2'' \<and>
   balance_of ledger0 ''B'' = Some 50 \<and>
   (\<exists>s. createTransaction ledger0 ''u1'' ''t9'' groceries_on_B = Inr s \<and>
        map tx_user_id (transactions s) = [''u1''] \<and>
        map tx_account_id (transactions s) = [Some ''B''] \<and>
        balance_of s ''B'' = Some 20)"
  by (simp add: ledger_defs)

section \<open>The life cycle of an import job\<close>




section \<open>The idempotency key\<close>

text \<open>In a text without \<open>|\<close> the first \<open>|\<close> of a joined text ends the first cell.\<close>

lemma bar_split:
  "CHR ''|'' \<notin> set x \<Longrightarrow> CHR ''|'' \<notin> set y \<Longrightarrow> x @ CHR ''|'' # r = y @ CHR ''|'' # r' \<Longrightarrow>
   x = y \<and> r = r'"
proof (induction x arbitrary: y)
  case Nil
  then show ?case by (cases y) auto
next
  case (Cons c cs)
  then show ?case by (cases y) auto
qed

lemma join_bar_inj4:
  assumes "\<forall>f \<in> set [a, b, c, d] \<union> set [a', b', c', d']. CHR ''|'' \<notin> set f"
    and "join_bar [a, b, c, d] = join_bar [a', b', c', d']"
  shows "[a, b, c, d] = [a', b', c', d']"
proof -
  from assms(2) have e1: "a @ CHR ''|'' # (b @ CHR ''|'' # (c @ CHR ''|'' # d)) =
      a' @ CHR ''|'' # (b' @ CHR ''|'' # (c' @ CHR ''|'' # d'))"
    by simp
  from assms(1) have n: "CHR ''|'' \<notin> set a" "CHR ''|'' \<notin> set a'" "CHR ''|'' \<notin> set b"
    "CHR ''|'' \<notin> set b'" "CHR ''|'' \<notin> set c" "CHR ''|'' \<notin> set c'"
    by simp_all
  from bar_split [OF n(1) n(2) e1] have a: "a = a'"
    and e2: "b @ CHR ''|'' # (c @ CHR ''|'' # d) = b' @ CHR ''|'' # (c' @ CHR ''|'' # d')"
    by simp_all
  from bar_split [OF n(3) n(4) e2] have b: "b = b'" and e3: "c @ CHR ''|'' # d = c' @ CHR ''|'' # d'"
    by simp_all
  from bar_split [OF n(5) n(6) e3] have "c = c'" "d = d'" by simp_all
  with a b show ?thesis by simp
qed

lemma keyFields_shape: "\<exists>a b c d. keyFields row mapping = [a, b, c, d]"
  by (simp add: keyFields_def)

text \<open>
  Claim C6 as stated (two rows have the same key if and only if their four raw cells are
  byte-identical) fails whatever the digest is: the cells are joined with \<open>|\<close> and not
  escaped, so \<open>a|b\<close>, \<open>c\<close> and \<open>a\<close>, \<open>b|c\<close> give one text and one key.
\<close>

theorem C6_counterexample:
  "(\<forall>md5. generateIdempotencyKey md5 row_a mapping0 = generateIdempotencyKey md5 row_b mapping0) \<and>
   keyFields row_a mapping0 \<noteq> keyFields row_b mapping0"
  by (simp add: generateIdempotencyKey_def keyFields_def cell_def cell_opt_def or_else_def
      row_a_def row_b_def mapping0_def)

text \<open>
  Claim C6, amended: the key is a function of the four raw cells (date, amount,
  description, reference or empty), so rows with identical cells have the same key; and
  when no cell holds a \<open>|\<close> and the digest does not collide on the two joined texts, the
  keys are equal only if the cells are identical.
\<close>

theorem C6_key_of_fields:
  "(keyFields r1 m1 = keyFields r2 m2 \<longrightarrow>
      generateIdempotencyKey md5 r1 m1 = generateIdempotencyKey md5 r2 m2) \<and>
   ((\<forall>f \<in> set (keyFields r1 m1) \<union> set (keyFields r2 m2). CHR ''|'' \<notin> set f) \<and>
    (md5 (join_bar (keyFields r1 m1)) = md5 (join_bar (keyFields r2 m2)) \<longrightarrow>
       join_bar (keyFields r1 m1) = join_bar (keyFields r2 m2)) \<longrightarrow>
    (generateIdempotencyKey md5 r1 m1 = generateIdempotencyKey md5 r2 m2 \<longleftrightarrow>
       keyFields r1 m1 = keyFields r2 m2))"
proof -
  obtain a b c d where k1: "keyFields r1 m1 = [a, b, c, d]"
    using keyFields_shape by blast
  obtain a' b' c' d' where k2: "keyFields r2 m2 = [a', b', c', d']"
    using keyFields_shape by blast
  show ?thesis
    unfolding generateIdempotencyKey_def k1 k2
    using join_bar_inj4 [of a b c d a' b' c' d'] by auto
qed

theorem C6_key_of_fields_witness:
  "keyFields row_c mapping0 = keyFields row_c2 mapping0 \<and>
   (\<forall>md5. generateIdempotencyKey md5 row_c mapping0 = generateIdempotencyKey md5 row_c2 mapping0) \<and>
   list_all (\<lambda>f. CHR ''|'' \<notin> set f) (keyFields row_c mapping0 @ keyFields row_d mapping0) \<and>
   keyFields row_c mapping0 \<noteq> keyFields row_d mapping0 \<and>
   generateIdempotencyKey (\<lambda>t. t) row_c mapping0 \<noteq> generateIdempotencyKey (\<lambda>t. t) row_d mapping0"
proof -
  have same: "keyFields row_c mapping0 = keyFields row_c2 mapping0"
    by (simp add: keyFields_def cell_def cell_opt_def or_else_def row_c_def row_c2_def mapping0_def)
  have nobar: "\<forall>f \<in> set (keyFields row_c mapping0) \<union> set (keyFields row_d mapping0). CHR ''|'' \<notin> set f"
    by (simp add: keyFields_def cell_def cell_opt_def or_else_def row_c_def row_d_def mapping0_def)
  have differ: "keyFields row_c mapping0 \<noteq> keyFields row_d mapping0"
    by (simp add: keyFields_def cell_def cell_opt_def or_else_def row_c_def row_d_def mapping0_def)
  have keys: "generateIdempotencyKey md5 row_c mapping0 = generateIdempotencyKey md5 row_c2 mapping0"
    for md5
    using C6_key_of_fields [of row_c mapping0 row_c2 mapping0 md5] same by simp
  have "generateIdempotencyKey (\<lambda>t. t) row_c mapping0 \<noteq> generateIdempotencyKey (\<lambda>t. t) row_d mapping0"
    using C6_key_of_fields [of row_c mapping0 row_d mapping0 "\<lambda>t. t"] nobar differ by simp
  with same keys nobar differ show ?thesis
    by (simp add: list_all_iff)
qed

section \<open>The background processor\<close>

text \<open>
  No iteration completes. Every path of the \<open>try\<close> block ends in a throw: the three
  calls of \<open>import_rows.create\<close> throw on their literal, and so does a refused insert of
  the transaction. The \<open>catch\<close> throws on its own literal, so the iteration is left
  with \<open>idempotency_key is not defined\<close>. The store is as before, but for the one
  transaction a valid, unseen row has inserted by then.
\<close>

lemma try_row_throws:
  "\<exists>e s'. try_row md5 d g j job m i row (s, a, b) = Inl (e, s') \<and>
     import_rows s' = import_rows s \<and> import_jobs s' = import_jobs s \<and>
     accounts s' = accounts s \<and> notifications s' = notifications s \<and>
     (transactions s' = transactions s \<or> (\<exists>t. transactions s' = transactions s @ [t]))"
  by (auto simp: try_row_def import_rows_create_def prisma_transactions_create_def Let_def
      split: sum.splits)

lemma process_row_throws:
  "\<exists>s'. process_row md5 d g j job m i row (s, a, b) = Inl (''idempotency_key is not defined'', s') \<and>
     import_rows s' = import_rows s \<and> import_jobs s' = import_jobs s \<and>
     accounts s' = accounts s \<and> notifications s' = notifications s \<and>
     (transactions s' = transactions s \<or> (\<exists>t. transactions s' = transactions s @ [t]))"
proof -
  from try_row_throws [of md5 d g j job m i row s a b] obtain e s' where t:
    "try_row md5 d g j job m i row (s, a, b) = Inl (e, s')"
    "import_rows s' = import_rows s" "import_jobs s' = import_jobs s"
    "accounts s' = accounts s" "notifications s' = notifications s"
    "transactions s' = transactions s \<or> (\<exists>t. transactions s' = transactions s @ [t])"
    by blast
  have "process_row md5 d g j job m i row (s, a, b) = Inl (''idempotency_key is not defined'', s')"
    by (simp add: process_row_def t(1) import_rows_create_def)
  with t show ?thesis by blast
qed

text \<open>
  So a run over a preview that holds a row fails the job, with that message in the error
  log; it writes no import row, no counter and no notification.
\<close>

lemma processImportJob_with_rows_fails:
  assumes "import_jobs s jobId = Some job" "preview_data job = Some (row # rows)"
    "mapping_data job = Some mapping"
  shows "import_jobs (processImportJob md5 d g s jobId) =
       (import_jobs s)(jobId \<mapsto> job\<lparr>status := Failed,
          error_log := Some ''idempotency_key is not defined''\<rparr>) \<and>
     import_rows (processImportJob md5 d g s jobId) = import_rows s \<and>
     notifications (processImportJob md5 d g s jobId) = notifications s \<and>
     accounts (processImportJob md5 d g s jobId) = accounts s \<and>
     (transactions (processImportJob md5 d g s jobId) = transactions s \<or>
      (\<exists>t. transactions (processImportJob md5 d g s jobId) = transactions s @ [t]))"
proof -
  from process_row_throws [of md5 d g jobId job mapping 0 row s 0 0] obtain s' where t:
    "process_row md5 d g jobId job mapping 0 row (s, 0, 0) =
       Inl (''idempotency_key is not defined'', s')"
    "import_rows s' = import_rows s" "import_jobs s' = import_jobs s"
    "accounts s' = accounts s" "notifications s' = notifications s"
    "transactions s' = transactions s \<or> (\<exists>t. transactions s' = transactions s @ [t])"
    by blast
  have run: "processImportJob md5 d g s jobId = fail_job jobId ''idempotency_key is not defined'' s'"
    using assms t(1) by (simp add: processImportJob_def)
  show ?thesis
    unfolding run using t assms(1) by (simp add: fail_job_def)
qed


lemmas run_defs = processImportJob_def process_row_def try_row_def import_rows_create_def
  complete_job_def fail_job_def failure_message_def
  generateIdempotencyKey_def keyFields_def cell_def cell_opt_def or_else_def
  parse_amount_def parseFloat_def strip_amount_def is_digit_def digits_val_def digit_val_def
  iso_date_def prisma_transactions_create_def Let_def empty_store_def
  mapping0_def job_of_def store_with_def

lemmas file_defs = import_file_def uploadCSV_def configureMapping_def processImport_def
  process_and_run_def find_job_def

text \<open>A job that went through upload, mapping and process always ends \<open>failed\<close>.\<close>

lemma uploaded_job_ends_failed:
  assumes "import_file md5 d g s userId jobId fname csvData mapping = Inr s'"
  shows "map_option status (import_jobs s' jobId) = Some Failed \<and> import_rows s' = import_rows s \<and>
     notifications s' = notifications s"
proof -
  from assms have ne: "csvData \<noteq> []" and free: "import_jobs s jobId = None"
    by (auto simp: file_defs split: if_splits)
  from ne obtain row rows where rows: "take 5 csvData = row # rows"
    by (cases csvData) auto
  define job where "job = \<lparr>job_user_id = userId, filename = fname, total_rows = length csvData,
      status = Processing, preview_data = Some (take 5 csvData), mapping_data = Some mapping,
      processed_rows = 0, successful_rows = 0, failed_rows = 0, error_log = None\<rparr>"
  define s0 where "s0 = s\<lparr>import_jobs := (import_jobs s)(jobId \<mapsto> job)\<rparr>"
  have run: "s' = processImportJob md5 d g s0 jobId"
    using assms ne free by (simp add: file_defs job_def s0_def)
  have j: "import_jobs s0 jobId = Some job" "preview_data job = Some (row # rows)"
    "mapping_data job = Some mapping"
    by (simp_all add: s0_def job_def rows)
  from processImportJob_with_rows_fails [OF j, of md5 d g] show ?thesis
    unfolding run by (simp add: s0_def)
qed


text \<open>
  Claim C7 (a row whose amount, after stripping all but digits, sign and decimal point,
  does not parse as a number is recorded as \<open>failed\<close> and creates no transaction, while
  the other rows are still processed and the job ends \<open>completed\<close>). The amount \<open>--5\<close>
  does not parse and the processor goes to record the failure, but the literal of that
  call throws and so does the one of the \<open>catch\<close>: no outcome is recorded, the second
  row is never visited, and the job ends \<open>failed\<close>.
\<close>

theorem C7_unparseable_row_fails_the_job:
  "cell bad_row (m_amount mapping0) = Some ''--5'' \<and> parseFloat (strip_amount ''--5'') = None \<and>
   (\<forall>md5 g.
      import_rows (processImportJob md5 iso_date g (store_with [bad_row, coffee_row] mapping0) ''j1'') = [] \<and>
      transactions (processImportJob md5 iso_date g (store_with [bad_row, coffee_row] mapping0) ''j1'') = [] \<and>
      map_option status
        (import_jobs (processImportJob md5 iso_date g (store_with [bad_row, coffee_row] mapping0) ''j1'')
           ''j1'') = Some Failed \<and>
      map_option error_log
        (import_jobs (processImportJob md5 iso_date g (store_with [bad_row, coffee_row] mapping0) ''j1'')
           ''j1'') = Some (Some ''idempotency_key is not defined''))"
  by (simp add: run_defs bad_row_def coffee_row_def)

text \<open>
  Claim C8 (every transaction the import creates has a strictly positive amount and a
  direction among \<open>income\<close> and \<open>expense\<close>, and a row that violates this produces no
  transaction). The processor checks the amount for \<open>NaN\<close> only and takes the type cell
  as it is: for a row with amount \<open>-5\<close> and type \<open>transfer\<close>, which
  \<open>createTransactionSchema\<close> refuses, the transaction is inserted as such. The call that
  follows throws, so the transaction stays without an outcome and the job ends \<open>failed\<close>.
\<close>

theorem C8_negative_amount_imported:
  "\<not> createTransactionSchema refund_body \<and>
   (\<forall>md5 g.
      map (\<lambda>t. \<lparr>cb_account_id = tx_account_id t, cb_amount = tx_amount t, cb_type = tx_type t,
                cb_description = tx_description t, cb_reference = tx_reference t,
                cb_notes = tx_notes t\<rparr>)
        (transactions (processImportJob md5 iso_date g (store_with [refund_row] mapping_typed) ''j1'')) =
        [refund_body] \<and>
      map tx_user_id
        (transactions (processImportJob md5 iso_date g (store_with [refund_row] mapping_typed) ''j1'')) =
        [''u1''] \<and>
      import_rows (processImportJob md5 iso_date g (store_with [refund_row] mapping_typed) ''j1'') = [] \<and>
      map_option status
        (import_jobs (processImportJob md5 iso_date g (store_with [refund_row] mapping_typed) ''j1'')
           ''j1'') = Some Failed)"
  by (simp add: run_defs refund_row_def refund_body_def mapping_typed_def
      createTransactionSchema_def)



text \<open>
  Claim C10 (in the recorded counters of a finished run every \<open>duplicate\<close> row counts as
  failed, so for a run whose loop visits \<open>n\<close> rows \<open>successful_rows + failed_rows = n\<close>,
  and the notification reports the same counts). The increments come after the calls
  that throw, and the update that writes the counters and the notification come after
  the loop. A run that visits one valid row inserts its transaction and leaves the
  counters at 0 with no notification; a run that visits one row whose key is on record
  leaves \<open>failed_rows\<close> at 0 as well.
\<close>

theorem C10_counters_never_written:
  "(\<forall>md5 g.
      case import_file md5 iso_date g empty_store ''u1'' ''j1'' ''bank.csv'' [coffee_row] mapping0 of
        Inl e \<Rightarrow> False
      | Inr s \<Rightarrow>
          map_option status (import_jobs s ''j1'') = Some Failed \<and>
          map_option (\<lambda>j. (processed_rows j, successful_rows j, failed_rows j))
            (import_jobs s ''j1'') = Some (0, 0, 0) \<and>
          notifications s = [] \<and> import_rows s = [] \<and> length (transactions s) = 1) \<and>
   (\<forall>md5 g.
      map_option (\<lambda>j. (status j, processed_rows j, successful_rows j, failed_rows j))
        (import_jobs (processImportJob md5 iso_date g (known_key_store md5) ''j1'') ''j1'') =
        Some (Failed, 0, 0, 0) \<and>
      notifications (processImportJob md5 iso_date g (known_key_store md5) ''j1'') = [])"
  by (simp add: known_key_store_def file_defs run_defs coffee_row_def)

end
